theory Spec2Isabelle
  imports Main "HOL-Library.Sublist"
begin

section \<open>Lab node runtime: the shared state and the hardware gate\<close>

text \<open>
  The embedding follows \<^verbatim>\<open>lab_pi_app.py\<close>, \<^verbatim>\<open>lab_pi_session_poller.py\<close> and
  \<^verbatim>\<open>audio_capture.py\<close>. Conventions:
  \<^item> a \<^verbatim>\<open>datetime\<close> is an \<open>int\<close>, the number of microseconds since the epoch (the
    resolution of Python's \<^verbatim>\<open>datetime\<close>); one call of an operation reads the clock
    once (\<open>now\<close>);
  \<^item> a value read with \<^verbatim>\<open>dict.get\<close> is an \<open>option\<close>, \<open>None\<close> when the key is
    absent or null; session keys and e-mail addresses are strings;
  \<^item> what the outside world answers (the result of a GPIO write, an HTTP response) is an
    argument of the operation;
  \<^item> every call that leaves the process (a GPIO write, a request to the Master) is
    appended to a list of effects, in the order of the calls.
\<close>

type_synonym timestamp = int

text \<open>Python's truth value of an optional string: \<^verbatim>\<open>None\<close> and \<^verbatim>\<open>''\<close> are false.\<close>

fun truthy :: "string option \<Rightarrow> bool" where
  "truthy None = False"
| "truthy (Some k) = (k \<noteq> [])"

text \<open>The body of a heartbeat response, as far as \<^verbatim>\<open>heartbeat\<close> and
  \<^verbatim>\<open>handle_new_session\<close> look into it.\<close>

datatype session_data =
    SessionNotDict
  | SessionDict "string option" "string option"

datatype hb_body =
    BodyUnparsable
  | BodyNotDict
  | BodyDict bool "session_data option"

text \<open>The fields of \<^verbatim>\<open>LabPiState\<close> that the program assigns after construction, and
  \<open>lab_pi_id\<close>, which the session-start handler compares. The name, MAC address,
  experiment id, Master URL, API key and the device list are set once and only sent out.\<close>

record LabPiState =
  lab_pi_id :: string
  registered :: bool
  lab_pi_db_id :: "int option"
  registered_at :: "timestamp option"
  session_active :: bool
  current_session_key :: "string option"
  session_start_time :: "timestamp option"
  user_email :: "string option"
  hardware_ready :: bool
  relay_state :: bool
  last_heartbeat_sent :: "timestamp option"
  last_heartbeat_response :: "hb_body option"
  heartbeat_failures :: int
  start_time :: timestamp

definition LabPiState_init :: "string \<Rightarrow> timestamp \<Rightarrow> LabPiState" where
  "LabPiState_init ident t0 =
     \<lparr> lab_pi_id = ident, registered = False, lab_pi_db_id = None, registered_at = None,
       session_active = False, current_session_key = None, session_start_time = None,
       user_email = None, hardware_ready = False, relay_state = False,
       last_heartbeat_sent = None, last_heartbeat_response = None,
       heartbeat_failures = 0, start_time = t0 \<rparr>"

text \<open>Calls that leave the process. A GPIO write records the handle argument (the
  application passes none), the pin and the level.\<close>

datatype effect =
    GpioWrite "int option" int int
  | MasterRegister
  | MasterHeartbeat
  | MasterSessionEnd "string option"

fun gpio_level :: "effect \<Rightarrow> int option" where
  "gpio_level (GpioWrite h p l) = Some l"
| "gpio_level _ = None"

record world =
  lab_state :: LabPiState
  effects :: "effect list"

definition world_init :: "string \<Rightarrow> timestamp \<Rightarrow> world" where
  "world_init ident t0 = \<lparr> lab_state = LabPiState_init ident t0, effects = [] \<rparr>"

definition emit :: "effect \<Rightarrow> world \<Rightarrow> world" where
  "emit e w = w\<lparr> effects := effects w @ [e] \<rparr>"

text \<open>The module-level names \<^verbatim>\<open>lgpio\<close> (is the library imported) and
  \<^verbatim>\<open>RELAY_PIN\<close> (\<^verbatim>\<open>None\<close> when the import failed) are fixed when the process
  starts.\<close>

record app_config =
  lgpio :: bool
  RELAY_PIN :: "int option"

text \<open>The guard \<^verbatim>\<open>if lgpio and RELAY_PIN\<close>: pin 0 is false as well.\<close>

definition gpio_enabled :: "app_config \<Rightarrow> bool" where
  "gpio_enabled cfg = (lgpio cfg \<and> (case RELAY_PIN cfg of None \<Rightarrow> False | Some p \<Rightarrow> p \<noteq> 0))"

text \<open>\<^verbatim>\<open>power_on_hardware\<close> and \<^verbatim>\<open>power_off_hardware\<close>: the write is attempted
  under the guard; \<open>gpio_ok\<close> says that \<^verbatim>\<open>lgpio.gpio_write\<close> returned. When it raises,
  the handler prints and \<open>relay_state\<close> keeps its value.\<close>

definition power_on_hardware :: "app_config \<Rightarrow> bool \<Rightarrow> world \<Rightarrow> world" where
  "power_on_hardware cfg gpio_ok w =
     (case RELAY_PIN cfg of
        None \<Rightarrow> w
      | Some pin \<Rightarrow>
          if lgpio cfg \<and> pin \<noteq> 0 then
            (let w1 = emit (GpioWrite None pin 1) w in
             if gpio_ok then w1\<lparr> lab_state := (lab_state w1)\<lparr> relay_state := True \<rparr> \<rparr>
             else w1)
          else w)"

definition power_off_hardware :: "app_config \<Rightarrow> bool \<Rightarrow> world \<Rightarrow> world" where
  "power_off_hardware cfg gpio_ok w =
     (case RELAY_PIN cfg of
        None \<Rightarrow> w
      | Some pin \<Rightarrow>
          if lgpio cfg \<and> pin \<noteq> 0 then
            (let w1 = emit (GpioWrite None pin 0) w in
             if gpio_ok then w1\<lparr> lab_state := (lab_state w1)\<lparr> relay_state := False \<rparr> \<rparr>
             else w1)
          else w)"

text \<open>A deenergize call is a GPIO write of level 0 by the application.\<close>

fun is_deenergize :: "effect \<Rightarrow> bool" where
  "is_deenergize (GpioWrite h p l) = (l = 0)"
| "is_deenergize _ = False"

definition deenergize_calls :: "world \<Rightarrow> nat" where
  "deenergize_calls w = length (filter is_deenergize (effects w))"

fun is_notification :: "effect \<Rightarrow> bool" where
  "is_notification (MasterSessionEnd k) = True"
| "is_notification _ = False"

definition notifications :: "world \<Rightarrow> nat" where
  "notifications w = length (filter is_notification (effects w))"

section \<open>Session handling\<close>

text \<open>\<^verbatim>\<open>MasterPiCommunicator.end_session\<close>: the notification is posted; the result
  (\<open>answer\<close>: the status code, \<open>None\<close> when the request raised) is returned as a truth
  value and the state is not touched.\<close>

definition master_end_session :: "int option \<Rightarrow> string option \<Rightarrow> world \<Rightarrow> bool \<times> world" where
  "master_end_session answer session_key w =
     (let w1 = emit (MasterSessionEnd session_key) w in
      case answer of None \<Rightarrow> (False, w1) | Some code \<Rightarrow> (code = 200, w1))"

text \<open>The helper \<^verbatim>\<open>end_session()\<close>: everything is under the guard on the session
  key; the result of the notification is dropped.\<close>

definition end_session :: "app_config \<Rightarrow> int option \<Rightarrow> bool \<Rightarrow> world \<Rightarrow> world" where
  "end_session cfg answer gpio_ok w =
     (if truthy (current_session_key (lab_state w)) then
        (let w1 = snd (master_end_session answer (current_session_key (lab_state w)) w);
             w2 = power_off_hardware cfg gpio_ok w1
         in w2\<lparr> lab_state := (lab_state w2)\<lparr> session_active := False,
                  current_session_key := None, session_start_time := None,
                  user_email := None \<rparr> \<rparr>)
      else w)"

text \<open>\<^verbatim>\<open>handle_new_session\<close>: \<open>session_active\<close> is assigned first; on a
  \<^verbatim>\<open>session_data\<close> that is no dictionary the next line raises and the assignment
  stays. The result says whether the call returned.\<close>

definition handle_new_session ::
    "app_config \<Rightarrow> session_data \<Rightarrow> timestamp \<Rightarrow> bool \<Rightarrow> world \<Rightarrow> bool \<times> world" where
  "handle_new_session cfg sd now gpio_ok w =
     (let w1 = w\<lparr> lab_state := (lab_state w)\<lparr> session_active := True \<rparr> \<rparr> in
      case sd of
        SessionNotDict \<Rightarrow> (False, w1)
      | SessionDict key email \<Rightarrow>
          (True, power_on_hardware cfg gpio_ok
                   (w1\<lparr> lab_state := (lab_state w1)\<lparr> current_session_key := key,
                          session_start_time := Some now, user_email := email \<rparr> \<rparr>)))"

text \<open>One pass of the loop of \<^verbatim>\<open>session_monitor_thread\<close>. The elapsed time is compared
  in microseconds: \<^verbatim>\<open>total_seconds() > 3600\<close>.\<close>

definition max_duration :: int where
  "max_duration = 60 * 60"

definition session_monitor_tick ::
    "app_config \<Rightarrow> timestamp \<Rightarrow> int option \<Rightarrow> bool \<Rightarrow> world \<Rightarrow> world" where
  "session_monitor_tick cfg now answer gpio_ok w =
     (case session_start_time (lab_state w) of
        None \<Rightarrow> w
      | Some t \<Rightarrow>
          if session_active (lab_state w) then
            (if now - t > max_duration * 1000000 then end_session cfg answer gpio_ok w else w)
          else w)"

section \<open>Registration and heartbeat\<close>

text \<open>What the Master answers to a registration: the request raised, or a response with
  a status code and a body that is a dictionary (with the value of \<^verbatim>\<open>id\<close>) or not.\<close>

datatype reg_body = RegBodyBad | RegBodyDict "int option"

datatype reg_answer = RegRaised | RegResponse int reg_body

definition register :: "reg_answer \<Rightarrow> timestamp \<Rightarrow> world \<Rightarrow> bool \<times> world" where
  "register ans now w =
     (let w1 = emit MasterRegister w in
      case ans of
        RegRaised \<Rightarrow> (False, w1)
      | RegResponse code body \<Rightarrow>
          if code = 200 then
            (case body of
               RegBodyBad \<Rightarrow> (False, w1)
             | RegBodyDict ident \<Rightarrow>
                 (True, w1\<lparr> lab_state := (lab_state w1)\<lparr> lab_pi_db_id := ident,
                          registered := True, registered_at := Some now \<rparr> \<rparr>))
          else (False, w1))"

datatype hb_answer = HbRaised | HbResponse int hb_body

text \<open>The \<^verbatim>\<open>except\<close> branch and the \<^verbatim>\<open>else\<close> branch of \<^verbatim>\<open>heartbeat\<close> do the
  same: count a failure and return \<^verbatim>\<open>False\<close>.\<close>

definition heartbeat_failed :: "world \<Rightarrow> bool \<times> world" where
  "heartbeat_failed w =
     (False, w\<lparr> lab_state := (lab_state w)\<lparr> heartbeat_failures :=
                   heartbeat_failures (lab_state w) + 1 \<rparr> \<rparr>)"

text \<open>\<^verbatim>\<open>heartbeat\<close>: the whole body is inside \<^verbatim>\<open>try\<close>, so whatever raises after
  the status check (\<^verbatim>\<open>response.json()\<close>, \<^verbatim>\<open>result.get\<close> on a body that is no
  dictionary, \<^verbatim>\<open>result['session']\<close> on a missing key, \<^verbatim>\<open>handle_new_session\<close>) ends
  in the \<^verbatim>\<open>except\<close> branch, after the assignments made so far.\<close>

definition heartbeat ::
    "app_config \<Rightarrow> hb_answer \<Rightarrow> timestamp \<Rightarrow> bool \<Rightarrow> world \<Rightarrow> bool \<times> world" where
  "heartbeat cfg ans now gpio_ok w =
     (let w0 = emit MasterHeartbeat w in
      case ans of
        HbRaised \<Rightarrow> heartbeat_failed w0
      | HbResponse code body \<Rightarrow>
          if code = 200 then
            (let w1 = w0\<lparr> lab_state := (lab_state w0)\<lparr> last_heartbeat_sent := Some now \<rparr> \<rparr> in
             case body of
               BodyUnparsable \<Rightarrow> heartbeat_failed w1
             | BodyNotDict \<Rightarrow>
                 heartbeat_failed
                   (w1\<lparr> lab_state := (lab_state w1)\<lparr> last_heartbeat_response := Some body,
                          heartbeat_failures := 0 \<rparr> \<rparr>)
             | BodyDict new_session sess \<Rightarrow>
                 (let w2 = w1\<lparr> lab_state := (lab_state w1)\<lparr> last_heartbeat_response := Some body,
                                  heartbeat_failures := 0 \<rparr> \<rparr> in
                  if new_session then
                    (case sess of
                       None \<Rightarrow> heartbeat_failed w2
                     | Some sd \<Rightarrow>
                         (case handle_new_session cfg sd now gpio_ok w2 of
                            (True, w3) \<Rightarrow> (True, w3)
                          | (False, w3) \<Rightarrow> heartbeat_failed w3))
                  else (True, w2)))
          else heartbeat_failed w0)"

text \<open>One pass of the loop of \<^verbatim>\<open>heartbeat_thread\<close>, without the sleep.\<close>

definition heartbeat_iteration ::
    "app_config \<Rightarrow> hb_answer \<Rightarrow> reg_answer \<Rightarrow> timestamp \<Rightarrow> bool \<Rightarrow> world \<Rightarrow> world" where
  "heartbeat_iteration cfg hb rg now gpio_ok w =
     (if registered (lab_state w) then
        (case heartbeat cfg hb now gpio_ok w of
           (True, w1) \<Rightarrow> w1
         | (False, w1) \<Rightarrow>
             if heartbeat_failures (lab_state w1) \<ge> 5 then
               snd (register rg now (w1\<lparr> lab_state := (lab_state w1)\<lparr> registered := False \<rparr> \<rparr>))
             else w1)
      else snd (register rg now w))"

section \<open>The HTTP handlers of the node\<close>

text \<open>A reply is a success (status 200) or an error with its status code.\<close>

datatype reply = ReplySuccess | ReplyError int

definition relay_on :: "app_config \<Rightarrow> bool \<Rightarrow> world \<Rightarrow> reply \<times> world" where
  "relay_on cfg gpio_ok w =
     (if \<not> session_active (lab_state w) then (ReplyError 403, w)
      else
        (case RELAY_PIN cfg of
           None \<Rightarrow> (ReplySuccess, w)
         | Some pin \<Rightarrow>
             if lgpio cfg \<and> pin \<noteq> 0 then
               (let w1 = emit (GpioWrite None pin 1) w in
                if gpio_ok then
                  (ReplySuccess, w1\<lparr> lab_state := (lab_state w1)\<lparr> relay_state := True \<rparr> \<rparr>)
                else (ReplyError 500, w1))
             else (ReplySuccess, w)))"

definition relay_off :: "app_config \<Rightarrow> bool \<Rightarrow> world \<Rightarrow> reply \<times> world" where
  "relay_off cfg gpio_ok w =
     (if \<not> session_active (lab_state w) then (ReplyError 403, w)
      else
        (case RELAY_PIN cfg of
           None \<Rightarrow> (ReplySuccess, w)
         | Some pin \<Rightarrow>
             if lgpio cfg \<and> pin \<noteq> 0 then
               (let w1 = emit (GpioWrite None pin 0) w in
                if gpio_ok then
                  (ReplySuccess, w1\<lparr> lab_state := (lab_state w1)\<lparr> relay_state := False \<rparr> \<rparr>)
                else (ReplyError 500, w1))
             else (ReplySuccess, w)))"

definition api_end_session :: "app_config \<Rightarrow> int option \<Rightarrow> bool \<Rightarrow> world \<Rightarrow> reply \<times> world" where
  "api_end_session cfg answer gpio_ok w =
     (if \<not> session_active (lab_state w) then (ReplyError 400, w)
      else (ReplySuccess, end_session cfg answer gpio_ok w))"

text \<open>\<^verbatim>\<open>lab_pi_session_start\<close>: \<open>header\<close> is the value of \<^verbatim>\<open>X-Lab-Pi-Id\<close>; the body
  is a JSON object, of which \<^verbatim>\<open>session_key\<close> and \<^verbatim>\<open>user_email\<close> are stored.\<close>

definition lab_pi_session_start ::
    "app_config \<Rightarrow> string option \<Rightarrow> string option \<Rightarrow> string option \<Rightarrow> timestamp \<Rightarrow> bool \<Rightarrow>
       world \<Rightarrow> reply \<times> world" where
  "lab_pi_session_start cfg header session_key email now gpio_ok w =
     (if header \<noteq> Some (lab_pi_id (lab_state w)) then (ReplyError 401, w)
      else
        (ReplySuccess,
         power_on_hardware cfg gpio_ok
           (w\<lparr> lab_state := (lab_state w)\<lparr> session_active := True,
                 current_session_key := session_key, session_start_time := Some now,
                 user_email := email \<rparr> \<rparr>)))"

text \<open>\<^verbatim>\<open>lab_pi_session_end\<close>: the session key of the body is only printed.\<close>

definition lab_pi_session_end ::
    "app_config \<Rightarrow> string option \<Rightarrow> bool \<Rightarrow> world \<Rightarrow> reply \<times> world" where
  "lab_pi_session_end cfg session_key gpio_ok w =
     (ReplySuccess,
      power_off_hardware cfg gpio_ok
        (w\<lparr> lab_state := (lab_state w)\<lparr> session_active := False,
              current_session_key := None, session_start_time := None,
              user_email := None \<rparr> \<rparr>))"

section \<open>The session poller\<close>

text \<open>\<^verbatim>\<open>lab_pi_session_poller.py\<close> is a program of its own, with its own state
  (\<^verbatim>\<open>SessionPoller\<close>) and its own relay functions. The fields
  \<^verbatim>\<open>current_session_key\<close> and \<^verbatim>\<open>session_end_time\<close> carry the prefix \<open>poller_\<close>
  here, since the application's state has a field of the first name.\<close>

record SessionPoller =
  poller_current_session_key :: "string option"
  poller_session_end_time :: "timestamp option"
  hardware_running :: bool
  running :: bool

definition SessionPoller_init :: SessionPoller where
  "SessionPoller_init =
     \<lparr> poller_current_session_key = None, poller_session_end_time = None,
       hardware_running = False, running = True \<rparr>"

record poller_world =
  poller :: SessionPoller
  poller_effects :: "effect list"

definition poller_world_init :: poller_world where
  "poller_world_init = \<lparr> poller = SessionPoller_init, poller_effects = [] \<rparr>"

definition poller_emit :: "effect \<Rightarrow> poller_world \<Rightarrow> poller_world" where
  "poller_emit e pw = pw\<lparr> poller_effects := poller_effects pw @ [e] \<rparr>"

text \<open>Whether \<^verbatim>\<open>import lgpio\<close> worked in the poller, and the global
  \<^verbatim>\<open>gpio_handle\<close> as \<^verbatim>\<open>init_gpio\<close> left it. The poller's pin is the constant 26.\<close>

record poller_config =
  poller_lgpio :: bool
  gpio_handle :: "int option"

definition poller_RELAY_PIN :: int where
  "poller_RELAY_PIN = 26"

text \<open>The poller's \<^verbatim>\<open>relay_on\<close> and \<^verbatim>\<open>relay_off\<close> (named with a prefix, the
  application has handlers of the same names). They do not catch: the result says whether
  the call returned. Without \<^verbatim>\<open>lgpio\<close> they only print.\<close>

definition poller_relay_on :: "poller_config \<Rightarrow> bool \<Rightarrow> poller_world \<Rightarrow> bool \<times> poller_world" where
  "poller_relay_on pcfg gpio_ok pw =
     (if poller_lgpio pcfg then
        (case gpio_handle pcfg of
           None \<Rightarrow> (True, pw)
         | Some h \<Rightarrow>
             if h \<noteq> 0 then (gpio_ok, poller_emit (GpioWrite (Some h) poller_RELAY_PIN 0) pw)
             else (True, pw))
      else (True, pw))"

definition poller_relay_off :: "poller_config \<Rightarrow> bool \<Rightarrow> poller_world \<Rightarrow> bool \<times> poller_world" where
  "poller_relay_off pcfg gpio_ok pw =
     (if poller_lgpio pcfg then
        (case gpio_handle pcfg of
           None \<Rightarrow> (True, pw)
         | Some h \<Rightarrow>
             if h \<noteq> 0 then (gpio_ok, poller_emit (GpioWrite (Some h) poller_RELAY_PIN 1) pw)
             else (True, pw))
      else (True, pw))"

definition start_hardware :: "poller_config \<Rightarrow> bool \<Rightarrow> poller_world \<Rightarrow> bool \<times> poller_world" where
  "start_hardware pcfg gpio_ok pw =
     (if \<not> hardware_running (poller pw) then
        (case poller_relay_on pcfg gpio_ok pw of
           (True, pw1) \<Rightarrow> (True, pw1\<lparr> poller := (poller pw1)\<lparr> hardware_running := True \<rparr> \<rparr>)
         | (False, pw1) \<Rightarrow> (False, pw1))
      else (True, pw))"

definition clear_poller_session :: "poller_world \<Rightarrow> poller_world" where
  "clear_poller_session pw =
     pw\<lparr> poller := (poller pw)\<lparr> poller_current_session_key := None,
                                poller_session_end_time := None \<rparr> \<rparr>"

definition stop_hardware :: "poller_config \<Rightarrow> bool \<Rightarrow> poller_world \<Rightarrow> bool \<times> poller_world" where
  "stop_hardware pcfg gpio_ok pw =
     (if hardware_running (poller pw) then
        (case poller_relay_off pcfg gpio_ok pw of
           (True, pw1) \<Rightarrow>
             (True, clear_poller_session (pw1\<lparr> poller := (poller pw1)\<lparr> hardware_running := False \<rparr> \<rparr>))
         | (False, pw1) \<Rightarrow> (False, pw1))
      else (True, clear_poller_session pw))"

text \<open>The answer to a poll. \<^verbatim>\<open>end_time\<close> is absent (or empty), or does not parse, or
  is an instant.\<close>

datatype end_time_field = EndAbsent | EndUnparsable | EndAt timestamp

datatype poll_body =
    PollBodyBad
  | PollRunning "string option" end_time_field
  | PollStopped
  | PollOtherStatus

datatype poll_answer = PollRaised | PollResponse int poll_body

text \<open>\<^verbatim>\<open>SessionPoller.poll\<close>. Every exception is caught at the end of the method, after
  the assignments made so far. \<open>on_ok\<close> and \<open>off_ok\<close> say whether the GPIO write of
  \<^verbatim>\<open>relay_on\<close> and of \<^verbatim>\<open>relay_off\<close> returns.\<close>

definition poll ::
    "poller_config \<Rightarrow> poll_answer \<Rightarrow> timestamp \<Rightarrow> bool \<Rightarrow> bool \<Rightarrow> poller_world \<Rightarrow> poller_world" where
  "poll pcfg ans now on_ok off_ok pw =
     (case ans of
        PollRaised \<Rightarrow> pw
      | PollResponse code body \<Rightarrow>
          if code = 200 then
            (case body of
               PollBodyBad \<Rightarrow> pw
             | PollOtherStatus \<Rightarrow> pw
             | PollStopped \<Rightarrow>
                 if truthy (poller_current_session_key (poller pw)) \<or> hardware_running (poller pw)
                 then snd (stop_hardware pcfg off_ok pw)
                 else pw
             | PollRunning session_key et \<Rightarrow>
                 (case et of
                    EndUnparsable \<Rightarrow> pw
                  | _ \<Rightarrow>
                      (let pw1 = pw\<lparr> poller := (poller pw)\<lparr> poller_session_end_time :=
                                    (case et of EndAt t \<Rightarrow> Some t | _ \<Rightarrow> None) \<rparr> \<rparr>;
                           (returned, pw2) =
                             (if session_key \<noteq> poller_current_session_key (poller pw1) then
                                start_hardware pcfg on_ok
                                  (pw1\<lparr> poller := (poller pw1)\<lparr> poller_current_session_key :=
                                           session_key \<rparr> \<rparr>)
                              else (True, pw1))
                       in if \<not> returned then pw2
                          else
                            (case poller_session_end_time (poller pw2) of
                               None \<Rightarrow> pw2
                             | Some t \<Rightarrow>
                                 if now \<ge> t then snd (stop_hardware pcfg off_ok pw2) else pw2))))
          else pw)"

section \<open>The audio pipeline\<close>

text \<open>The queue of \<^verbatim>\<open>AudioCapture\<close> is \<^verbatim>\<open>queue.Queue(maxsize=10)\<close>: a list, oldest
  frame first. \<open>posts\<close> records each call of \<^verbatim>\<open>requests.post\<close> of the sender, with
  the frame and whether the request returned.\<close>

record AudioCapture =
  audio_queue :: "string list"
  posts :: "(string \<times> bool) list"

definition AudioCapture_init :: AudioCapture where
  "AudioCapture_init = \<lparr> audio_queue = [], posts = [] \<rparr>"

definition maxsize :: nat where
  "maxsize = 10"

text \<open>\<^verbatim>\<open>audio_queue.put(audio_b64, timeout=0.5)\<close> at the moment it returns or raises:
  with room the frame is appended; without, \<^verbatim>\<open>queue.Full\<close> is raised after the
  timeout.\<close>

definition queue_put :: "string \<Rightarrow> string list \<Rightarrow> bool \<times> string list" where
  "queue_put frame q = (if length q < maxsize then (True, q @ [frame]) else (False, q))"

text \<open>What one pass of \<^verbatim>\<open>_capture_loop\<close> meets: no active stream, a read that raises,
  or a frame (already encoded).\<close>

datatype capture_input = StreamInactive | ReadRaised | Frame string

definition capture_step :: "capture_input \<Rightarrow> AudioCapture \<Rightarrow> AudioCapture" where
  "capture_step inp a =
     (case inp of
        Frame f \<Rightarrow> a\<lparr> audio_queue := snd (queue_put f (audio_queue a)) \<rparr>
      | _ \<Rightarrow> a)"

text \<open>One pass of \<^verbatim>\<open>_send_loop\<close>: with a frame in the queue it is taken out and posted
  once, whatever the request does; \<open>post_ok\<close> says that the request returned.\<close>

definition send_step :: "bool \<Rightarrow> AudioCapture \<Rightarrow> AudioCapture" where
  "send_step post_ok a =
     (case audio_queue a of
        [] \<Rightarrow> a
      | f # rest \<Rightarrow> a\<lparr> audio_queue := rest, posts := posts a @ [(f, post_ok)] \<rparr>)"

datatype audio_event = Capture capture_input | Send bool

fun audio_step :: "audio_event \<Rightarrow> AudioCapture \<Rightarrow> AudioCapture" where
  "audio_step (Capture inp) a = capture_step inp a"
| "audio_step (Send post_ok) a = send_step post_ok a"

fun audio_run :: "audio_event list \<Rightarrow> AudioCapture \<Rightarrow> AudioCapture" where
  "audio_run [] a = a"
| "audio_run (e # es) a = audio_run es (audio_step e a)"

text \<open>The frames a sequence of passes captures, in order, and the frames a state has
  taken in: those posted, followed by those waiting in the queue.\<close>

fun frame_of :: "audio_event \<Rightarrow> string list" where
  "frame_of (Capture (Frame f)) = [f]"
| "frame_of _ = []"

definition frames_of :: "audio_event list \<Rightarrow> string list" where
  "frames_of evs = concat (map frame_of evs)"

definition handled :: "AudioCapture \<Rightarrow> string list" where
  "handled a = map fst (posts a) @ audio_queue a"

section \<open>The node as a transition system\<close>

text \<open>The application and the poller side by side. An event is one call of a handler or
  one pass of a background loop, with what the outside world answers to it.\<close>

record node =
  app_side :: world
  poller_side :: poller_world

definition node_init :: "string \<Rightarrow> timestamp \<Rightarrow> node" where
  "node_init ident t0 = \<lparr> app_side = world_init ident t0, poller_side = poller_world_init \<rparr>"

datatype event =
    EvRegister reg_answer timestamp
  | EvHeartbeatLoop hb_answer reg_answer timestamp bool
  | EvMonitorTick timestamp "int option" bool
  | EvRelayOn bool
  | EvRelayOff bool
  | EvApiEndSession "int option" bool
  | EvSessionStart "string option" "string option" "string option" timestamp bool
  | EvSessionEnd "string option" bool
  | EvPoll poll_answer timestamp bool bool

fun app_step :: "app_config \<Rightarrow> event \<Rightarrow> world \<Rightarrow> world" where
  "app_step cfg (EvRegister rg now) w = snd (register rg now w)"
| "app_step cfg (EvHeartbeatLoop hb rg now gpio_ok) w = heartbeat_iteration cfg hb rg now gpio_ok w"
| "app_step cfg (EvMonitorTick now answer gpio_ok) w = session_monitor_tick cfg now answer gpio_ok w"
| "app_step cfg (EvRelayOn gpio_ok) w = snd (relay_on cfg gpio_ok w)"
| "app_step cfg (EvRelayOff gpio_ok) w = snd (relay_off cfg gpio_ok w)"
| "app_step cfg (EvApiEndSession answer gpio_ok) w = snd (api_end_session cfg answer gpio_ok w)"
| "app_step cfg (EvSessionStart header key email now gpio_ok) w =
     snd (lab_pi_session_start cfg header key email now gpio_ok w)"
| "app_step cfg (EvSessionEnd key gpio_ok) w = snd (lab_pi_session_end cfg key gpio_ok w)"
| "app_step cfg (EvPoll ans now on_ok off_ok) w = w"

fun poller_step :: "poller_config \<Rightarrow> event \<Rightarrow> poller_world \<Rightarrow> poller_world" where
  "poller_step pcfg (EvPoll ans now on_ok off_ok) pw = poll pcfg ans now on_ok off_ok pw"
| "poller_step pcfg _ pw = pw"

definition step :: "app_config \<Rightarrow> poller_config \<Rightarrow> event \<Rightarrow> node \<Rightarrow> node" where
  "step cfg pcfg e n =
     \<lparr> app_side = app_step cfg e (app_side n), poller_side = poller_step pcfg e (poller_side n) \<rparr>"

fun run :: "app_config \<Rightarrow> poller_config \<Rightarrow> event list \<Rightarrow> node \<Rightarrow> node" where
  "run cfg pcfg [] n = n"
| "run cfg pcfg (e # es) n = run cfg pcfg es (step cfg pcfg e n)"

text \<open>The events that end a session carry the outcome of the deenergize write.\<close>

fun deenergize_ok :: "event \<Rightarrow> bool" where
  "deenergize_ok (EvMonitorTick now answer gpio_ok) = gpio_ok"
| "deenergize_ok (EvApiEndSession answer gpio_ok) = gpio_ok"
| "deenergize_ok (EvSessionEnd key gpio_ok) = gpio_ok"
| "deenergize_ok _ = True"

definition I1 :: "world \<Rightarrow> bool" where
  "I1 w = (relay_state (lab_state w) \<longrightarrow> session_active (lab_state w))"

text \<open>The invariant that the transitions of the application keep when the deenergize
  writes return: I1, and the relay flag is only ever set where the GPIO guard holds.\<close>

definition app_invariant :: "app_config \<Rightarrow> world \<Rightarrow> bool" where
  "app_invariant cfg w =
     ((relay_state (lab_state w) \<longrightarrow> session_active (lab_state w)) \<and>
      (relay_state (lab_state w) \<longrightarrow> gpio_enabled cfg))"

text \<open>Counting the registration requests, and classifying heartbeat answers: a response
  with status 200 and a body that parses is the only answer after which \<^verbatim>\<open>heartbeat\<close>
  assigns 0 to the failure counter.\<close>

definition register_calls :: "world \<Rightarrow> nat" where
  "register_calls w = length (filter (\<lambda>e. e = MasterRegister) (effects w))"

fun parsed_200 :: "hb_answer \<Rightarrow> bool" where
  "parsed_200 HbRaised = False"
| "parsed_200 (HbResponse code body) = (code = 200 \<and> body \<noteq> BodyUnparsable)"

fun carries_parsed_200 :: "event \<Rightarrow> bool" where
  "carries_parsed_200 (EvHeartbeatLoop hb rg now gpio_ok) = parsed_200 hb"
| "carries_parsed_200 _ = False"

fun is_heartbeat_pass :: "event \<Rightarrow> bool" where
  "is_heartbeat_pass (EvHeartbeatLoop hb rg now gpio_ok) = True"
| "is_heartbeat_pass _ = False"

section \<open>The two control paths side by side\<close>

text \<open>A control event, as the Master means it: start the session with a key, or end the
  session. On the push path a start is a session-start request with the node's own id in
  the header and an end is a session-end request; on the poll path a start is a poll
  answered with \<^verbatim>\<open>running\<close> and the key (no end time), an end a poll answered with
  \<^verbatim>\<open>stopped\<close>. In both, every GPIO write returns.\<close>

datatype control = Start string | End

fun push_control :: "app_config \<Rightarrow> timestamp \<Rightarrow> control \<Rightarrow> world \<Rightarrow> world" where
  "push_control cfg now (Start k) w =
     snd (lab_pi_session_start cfg (Some (lab_pi_id (lab_state w))) (Some k) None now True w)"
| "push_control cfg now End w = snd (lab_pi_session_end cfg None True w)"

fun poll_control :: "poller_config \<Rightarrow> timestamp \<Rightarrow> control \<Rightarrow> poller_world \<Rightarrow> poller_world" where
  "poll_control pcfg now (Start k) pw =
     poll pcfg (PollResponse 200 (PollRunning (Some k) EndAbsent)) now True True pw"
| "poll_control pcfg now End pw = poll pcfg (PollResponse 200 PollStopped) now True True pw"

fun push_run :: "app_config \<Rightarrow> timestamp \<Rightarrow> control list \<Rightarrow> world \<Rightarrow> world" where
  "push_run cfg now [] w = w"
| "push_run cfg now (c # cs) w = push_run cfg now cs (push_control cfg now c w)"

fun poll_run :: "poller_config \<Rightarrow> timestamp \<Rightarrow> control list \<Rightarrow> poller_world \<Rightarrow> poller_world" where
  "poll_run pcfg now [] pw = pw"
| "poll_run pcfg now (c # cs) pw = poll_run pcfg now cs (poll_control pcfg now c pw)"

text \<open>What the two states have in common: the remembered session key and the relay
  flag.\<close>

definition push_view :: "world \<Rightarrow> string option \<times> bool" where
  "push_view w = (current_session_key (lab_state w), relay_state (lab_state w))"

definition poll_view :: "poller_world \<Rightarrow> string option \<times> bool" where
  "poll_view pw = (poller_current_session_key (poller pw), hardware_running (poller pw))"

definition paths_agree :: "world \<Rightarrow> poller_world \<Rightarrow> bool" where
  "paths_agree w pw =
     (push_view w = poll_view pw \<and>
      relay_state (lab_state w) = (current_session_key (lab_state w) \<noteq> None) \<and>
      I1 w)"

section \<open>Properties\<close>

lemmas app_defs =
  power_on_hardware_def power_off_hardware_def emit_def end_session_def master_end_session_def
  handle_new_session_def session_monitor_tick_def register_def heartbeat_def
  heartbeat_failed_def heartbeat_iteration_def relay_on_def relay_off_def api_end_session_def
  lab_pi_session_start_def lab_pi_session_end_def

lemmas init_defs =
  node_init_def world_init_def LabPiState_init_def poller_world_init_def SessionPoller_init_def

subsection \<open>I1: an energized relay implies an active session\<close>

lemma app_step_invariant:
  "deenergize_ok e \<Longrightarrow> app_invariant cfg w \<Longrightarrow> app_invariant cfg (app_step cfg e w)"
  by (cases e)
     (auto simp: app_invariant_def app_defs gpio_enabled_def Let_def
           split: option.splits if_splits reg_answer.splits reg_body.splits hb_answer.splits
                  hb_body.splits session_data.splits prod.splits)

lemma run_invariant:
  "list_all deenergize_ok evs \<Longrightarrow> app_invariant cfg (app_side n) \<Longrightarrow>
     app_invariant cfg (app_side (run cfg pcfg evs n))"
proof (induction evs arbitrary: n)
  case Nil
  then show ?case by simp
next
  case (Cons e evs)
  from Cons.prems have "app_invariant cfg (app_side (step cfg pcfg e n))"
    by (simp add: step_def app_step_invariant)
  with Cons show ?case by simp
qed

lemma init_invariant: "app_invariant cfg (app_side (node_init ident t0))"
  by (simp add: app_invariant_def init_defs)

text \<open>
  C1 as stated: in every reachable state \<open>relay_state\<close> implies \<open>session_active\<close>, also
  when the deenergize call fails. It does not hold: a session is started (the relay write
  returns), then the Master's session-end arrives and the write of level 0 raises;
  \<^verbatim>\<open>power_off_hardware\<close> prints and \<open>relay_state\<close> stays \<open>True\<close> with the session
  cleared.
\<close>

theorem I1_broken_by_failed_deenergize:
  "\<not> I1 (app_side (run \<lparr> lgpio = True, RELAY_PIN = Some 26 \<rparr>
                        \<lparr> poller_lgpio = True, gpio_handle = Some 1 \<rparr>
                        [EvSessionStart (Some ''lab-001'') (Some ''A'') (Some ''u@x'') 0 True,
                         EvSessionEnd (Some ''A'') False]
                        (node_init ''lab-001'' 0)))"
  by (simp add: I1_def step_def app_defs init_defs)

text \<open>
  C1, amended: in every state reached from the initial state by a sequence of events
  (registration, passes of the heartbeat loop with or without an assignment, passes of the
  timeout monitor, relay on/off requests, the local and the pushed session end, the pushed
  session start, polls) in which no deenergize write of a session-ending event raises,
  \<open>relay_state\<close> implies \<open>session_active\<close>.
\<close>

theorem I1_when_deenergize_returns:
  "list_all deenergize_ok evs \<Longrightarrow> I1 (app_side (run cfg pcfg evs (node_init ident t0)))"
proof -
  assume "list_all deenergize_ok evs"
  then have "app_invariant cfg (app_side (run cfg pcfg evs (node_init ident t0)))"
    by (rule run_invariant) (rule init_invariant)
  then show ?thesis by (simp add: app_invariant_def I1_def)
qed

theorem I1_when_deenergize_returns_witness:
  "list_all deenergize_ok
     [EvSessionStart (Some ''lab-001'') (Some ''A'') (Some ''u@x'') 0 True,
      EvMonitorTick 3600000001 None True,
      EvSessionStart (Some ''lab-001'') (Some ''B'') (Some ''v@x'') 3600000002 True,
      EvRelayOff False] \<and>
   I1 (app_side (run \<lparr> lgpio = True, RELAY_PIN = Some 26 \<rparr>
                     \<lparr> poller_lgpio = True, gpio_handle = Some 1 \<rparr>
                     [EvSessionStart (Some ''lab-001'') (Some ''A'') (Some ''u@x'') 0 True,
                      EvMonitorTick 3600000001 None True,
                      EvSessionStart (Some ''lab-001'') (Some ''B'') (Some ''v@x'') 3600000002 True,
                      EvRelayOff False]
                     (node_init ''lab-001'' 0))) \<and>
   relay_state (lab_state (app_side (run \<lparr> lgpio = True, RELAY_PIN = Some 26 \<rparr>
                     \<lparr> poller_lgpio = True, gpio_handle = Some 1 \<rparr>
                     [EvSessionStart (Some ''lab-001'') (Some ''A'') (Some ''u@x'') 0 True,
                      EvMonitorTick 3600000001 None True,
                      EvSessionStart (Some ''lab-001'') (Some ''B'') (Some ''v@x'') 3600000002 True,
                      EvRelayOff False]
                     (node_init ''lab-001'' 0))))"
proof -
  let ?evs = "[EvSessionStart (Some ''lab-001'') (Some ''A'') (Some ''u@x'') 0 True,
      EvMonitorTick 3600000001 None True,
      EvSessionStart (Some ''lab-001'') (Some ''B'') (Some ''v@x'') 3600000002 True,
      EvRelayOff False]"
  have h: "list_all deenergize_ok ?evs"
    by simp
  have r: "relay_state (lab_state (app_side (run \<lparr> lgpio = True, RELAY_PIN = Some 26 \<rparr>
                     \<lparr> poller_lgpio = True, gpio_handle = Some 1 \<rparr> ?evs
                     (node_init ''lab-001'' 0))))"
    by (simp add: step_def app_defs init_defs max_duration_def)
  show ?thesis using h r I1_when_deenergize_returns [OF h] by blast
qed

subsection \<open>A session without a key\<close>

text \<open>
  C4: in a state whose \<open>current_session_key\<close> is \<open>None\<close>, \<^verbatim>\<open>end_session()\<close> changes no
  field and makes no call (no GPIO write, no notification), whether or not
  \<open>session_active\<close> is set, and so does a pass of the timeout monitor. Such a state with
  \<open>session_active\<close> set is reached when a heartbeat delivers an assignment without
  \<^verbatim>\<open>session_key\<close>: after it, \<^verbatim>\<open>end_session()\<close> and the monitor leave the session
  as it is.
\<close>

theorem end_session_without_key:
  "current_session_key (lab_state w) = None \<Longrightarrow>
     end_session cfg answer gpio_ok w = w \<and>
     session_monitor_tick cfg now answer gpio_ok w = w \<and>
     (let w' = snd (heartbeat cfg (HbResponse 200 (BodyDict True (Some (SessionDict None email))))
                      now0 on_ok w)
      in session_active (lab_state w') \<and> current_session_key (lab_state w') = None \<and>
         end_session cfg answer gpio_ok w' = w' \<and>
         session_monitor_tick cfg now answer gpio_ok w' = w')"
  by (auto simp: app_defs Let_def split: option.splits)

theorem end_session_without_key_witness:
  "current_session_key (lab_state (world_init ''lab-001'' 0)) = None \<and>
   end_session \<lparr> lgpio = True, RELAY_PIN = Some 26 \<rparr> (Some 200) True (world_init ''lab-001'' 0)
     = world_init ''lab-001'' 0 \<and>
   (let w' = snd (heartbeat \<lparr> lgpio = True, RELAY_PIN = Some 26 \<rparr>
                    (HbResponse 200 (BodyDict True (Some (SessionDict None (Some ''u@x'')))))
                    5 True (world_init ''lab-001'' 0))
    in session_active (lab_state w') \<and> relay_state (lab_state w') \<and>
       session_monitor_tick \<lparr> lgpio = True, RELAY_PIN = Some 26 \<rparr> 9000000000 (Some 200) True w'
         = w')"
proof -
  have h: "current_session_key (lab_state (world_init ''lab-001'' 0)) = None"
    by (simp add: init_defs)
  have r: "relay_state (lab_state (snd (heartbeat \<lparr> lgpio = True, RELAY_PIN = Some 26 \<rparr>
                    (HbResponse 200 (BodyDict True (Some (SessionDict None (Some ''u@x'')))))
                    5 True (world_init ''lab-001'' 0))))"
    by (simp add: app_defs init_defs)
  show ?thesis
    using h r
      end_session_without_key [OF h, of "\<lparr> lgpio = True, RELAY_PIN = Some 26 \<rparr>" "Some 200" True
        9000000000 "Some ''u@x''" 5 True]
    by (simp add: Let_def)
qed

subsection \<open>Ending a session twice\<close>

lemma deenergize_calls_lab_state:
  "deenergize_calls (w\<lparr> lab_state := s \<rparr>) = deenergize_calls w"
  by (simp add: deenergize_calls_def)

lemma notifications_lab_state:
  "notifications (w\<lparr> lab_state := s \<rparr>) = notifications w"
  by (simp add: notifications_def)

lemma deenergize_calls_emit:
  "deenergize_calls (emit e w) = deenergize_calls w + (if is_deenergize e then 1 else 0)"
  by (simp add: deenergize_calls_def emit_def)

lemma notifications_emit:
  "notifications (emit e w) = notifications w + (if is_notification e then 1 else 0)"
  by (simp add: notifications_def emit_def)

lemma lab_state_emit: "lab_state (emit e w) = lab_state w"
  by (simp add: emit_def)

lemmas count_simps =
  deenergize_calls_lab_state notifications_lab_state deenergize_calls_emit notifications_emit

lemma deenergize_calls_power_off:
  "deenergize_calls (power_off_hardware cfg gpio_ok w) =
     deenergize_calls w + (if gpio_enabled cfg then 1 else 0)"
  by (simp add: deenergize_calls_def power_off_hardware_def emit_def gpio_enabled_def Let_def
           split: option.splits)

lemma notifications_power_off:
  "notifications (power_off_hardware cfg gpio_ok w) = notifications w"
  by (simp add: notifications_def power_off_hardware_def emit_def Let_def split: option.splits)

lemma lab_state_power_off:
  "lab_state (power_off_hardware cfg gpio_ok w) =
     (if gpio_enabled cfg \<and> gpio_ok then (lab_state w)\<lparr> relay_state := False \<rparr> else lab_state w)"
  by (simp add: power_off_hardware_def emit_def gpio_enabled_def Let_def split: option.splits)

lemma lab_state_power_on:
  "lab_state (power_on_hardware cfg gpio_ok w) =
     (if gpio_enabled cfg \<and> gpio_ok then (lab_state w)\<lparr> relay_state := True \<rparr> else lab_state w)"
  by (simp add: power_on_hardware_def emit_def gpio_enabled_def Let_def split: option.splits)

text \<open>
  C2 as stated: two calls of end in a row make exactly one deenergize call. It does not
  hold for the pushed session end: \<^verbatim>\<open>lab_pi_session_end\<close> has no guard, so each of
  the two calls writes level 0 to the relay pin.
\<close>

theorem pushed_end_twice_deenergizes_twice:
  "deenergize_calls
     (app_side (run \<lparr> lgpio = True, RELAY_PIN = Some 26 \<rparr>
                    \<lparr> poller_lgpio = True, gpio_handle = Some 1 \<rparr>
                    [EvSessionStart (Some ''lab-001'') (Some ''A'') (Some ''u@x'') 0 True,
                     EvSessionEnd (Some ''A'') True, EvSessionEnd (Some ''A'') True]
                    (node_init ''lab-001'' 0))) = 2"
  by (simp add: deenergize_calls_def step_def app_defs init_defs)

text \<open>
  C2, amended: with the GPIO guard open and a session key that is set, two calls of the
  helper \<^verbatim>\<open>end_session()\<close> in a row make exactly one deenergize call and one
  notification, end with \<open>session_active\<close> false, and the second call changes nothing.
  Two pushed session ends in a row also end with \<open>session_active\<close> false and the session
  key cleared, and each of them makes a deenergize call.
\<close>

theorem end_twice:
  "gpio_enabled cfg \<Longrightarrow> truthy (current_session_key (lab_state w)) \<Longrightarrow>
     (let w1 = end_session cfg a1 ok1 w; w2 = end_session cfg a2 ok2 w1
      in w2 = w1 \<and> \<not> session_active (lab_state w2) \<and>
         deenergize_calls w2 = deenergize_calls w + 1 \<and>
         notifications w2 = notifications w + 1) \<and>
     (let w1 = snd (lab_pi_session_end cfg k1 ok1 w); w2 = snd (lab_pi_session_end cfg k2 ok2 w1)
      in \<not> session_active (lab_state w2) \<and> current_session_key (lab_state w2) = None \<and>
         deenergize_calls w1 = deenergize_calls w + 1 \<and>
         deenergize_calls w2 = deenergize_calls w + 2)"
proof -
  assume g: "gpio_enabled cfg" and k: "truthy (current_session_key (lab_state w))"
  let ?w1 = "end_session cfg a1 ok1 w"
  have key1: "current_session_key (lab_state ?w1) = None"
    using k by (simp add: end_session_def Let_def)
  have "end_session cfg a2 ok2 ?w1 = ?w1"
    using key1 by (simp add: end_session_def)
  moreover have "\<not> session_active (lab_state ?w1)"
    using k by (simp add: end_session_def Let_def)
  moreover have "deenergize_calls ?w1 = deenergize_calls w + 1"
    using k g
    by (simp add: end_session_def Let_def deenergize_calls_power_off master_end_session_def
             count_simps split: option.splits)
  moreover have "notifications ?w1 = notifications w + 1"
    using k
    by (simp add: end_session_def Let_def notifications_power_off master_end_session_def
             count_simps split: option.splits)
  moreover have "deenergize_calls (snd (lab_pi_session_end cfg k1 ok1 w)) = deenergize_calls w + 1"
    using g by (simp add: lab_pi_session_end_def deenergize_calls_power_off count_simps)
  moreover have "deenergize_calls (snd (lab_pi_session_end cfg k2 ok2
                   (snd (lab_pi_session_end cfg k1 ok1 w)))) = deenergize_calls w + 2"
    using g by (simp add: lab_pi_session_end_def deenergize_calls_power_off count_simps)
  moreover have "\<not> session_active (lab_state (snd (lab_pi_session_end cfg k2 ok2
                   (snd (lab_pi_session_end cfg k1 ok1 w)))))"
    by (simp add: lab_pi_session_end_def lab_state_power_off)
  moreover have "current_session_key (lab_state (snd (lab_pi_session_end cfg k2 ok2
                   (snd (lab_pi_session_end cfg k1 ok1 w))))) = None"
    by (simp add: lab_pi_session_end_def lab_state_power_off)
  ultimately show ?thesis by (simp add: Let_def)
qed

theorem end_twice_witness:
  "gpio_enabled \<lparr> lgpio = True, RELAY_PIN = Some 26 \<rparr> \<and>
   truthy (current_session_key (lab_state
     (snd (lab_pi_session_start \<lparr> lgpio = True, RELAY_PIN = Some 26 \<rparr> (Some ''lab-001'')
             (Some ''A'') (Some ''u@x'') 0 True (world_init ''lab-001'' 0))))) \<and>
   (let w = snd (lab_pi_session_start \<lparr> lgpio = True, RELAY_PIN = Some 26 \<rparr> (Some ''lab-001'')
                   (Some ''A'') (Some ''u@x'') 0 True (world_init ''lab-001'' 0));
        w1 = end_session \<lparr> lgpio = True, RELAY_PIN = Some 26 \<rparr> (Some 200) True w;
        w2 = end_session \<lparr> lgpio = True, RELAY_PIN = Some 26 \<rparr> None False w1
    in w2 = w1 \<and> \<not> session_active (lab_state w2) \<and> deenergize_calls w2 = 1 \<and>
       notifications w2 = 1)"
proof -
  let ?cfg = "\<lparr> lgpio = True, RELAY_PIN = Some 26 \<rparr>"
  let ?w = "snd (lab_pi_session_start ?cfg (Some ''lab-001'') (Some ''A'') (Some ''u@x'') 0 True
                   (world_init ''lab-001'' 0))"
  have g: "gpio_enabled ?cfg"
    by (simp add: gpio_enabled_def)
  have k: "truthy (current_session_key (lab_state ?w))"
    by (simp add: lab_pi_session_start_def lab_state_power_on init_defs)
  have d: "deenergize_calls ?w = 0"
    by (simp add: deenergize_calls_def app_defs init_defs)
  have n: "notifications ?w = 0"
    by (simp add: notifications_def app_defs init_defs)
  show ?thesis
    using g k d n end_twice [OF g k, of "Some 200" True None False None None]
    by (auto simp: Let_def)
qed

subsection \<open>Session start and the hardware flags\<close>

lemma app_step_hardware_ready:
  "hardware_ready (lab_state (app_step cfg e w)) = hardware_ready (lab_state w)"
  by (cases e)
     (auto simp: app_defs Let_def
           split: option.splits if_splits reg_answer.splits reg_body.splits hb_answer.splits
                  hb_body.splits session_data.splits prod.splits)

lemma run_hardware_ready:
  "hardware_ready (lab_state (app_side (run cfg pcfg evs n))) =
     hardware_ready (lab_state (app_side n))"
  by (induction evs arbitrary: n) (simp_all add: step_def app_step_hardware_ready)

text \<open>
  C6 as stated: after an authorized session start, \<open>hardware_ready\<close> is true if and only
  if the energize call returned. It does not hold: on the initial state, with the GPIO
  guard open and a write that returns, the session is started and the relay flag is set,
  and \<open>hardware_ready\<close> is still false.
\<close>

theorem session_start_leaves_hardware_ready_false:
  "fst (lab_pi_session_start \<lparr> lgpio = True, RELAY_PIN = Some 26 \<rparr> (Some ''lab-001'')
          (Some ''A'') (Some ''u@x'') 0 True (world_init ''lab-001'' 0)) = ReplySuccess \<and>
   relay_state (lab_state (snd (lab_pi_session_start \<lparr> lgpio = True, RELAY_PIN = Some 26 \<rparr>
          (Some ''lab-001'') (Some ''A'') (Some ''u@x'') 0 True (world_init ''lab-001'' 0)))) \<and>
   \<not> hardware_ready (lab_state (snd (lab_pi_session_start \<lparr> lgpio = True, RELAY_PIN = Some 26 \<rparr>
          (Some ''lab-001'') (Some ''A'') (Some ''u@x'') 0 True (world_init ''lab-001'' 0))))"
  by (simp add: lab_pi_session_start_def lab_state_power_on gpio_enabled_def init_defs)

text \<open>
  C6, amended: a session start whose node id header matches is answered with success and
  leaves \<open>session_active\<close> true with the key, the e-mail address and the start time
  installed, whatever the energize call does; \<open>relay_state\<close> becomes true if the GPIO
  guard is open and the write returns, and keeps its value otherwise; \<open>hardware_ready\<close>
  keeps its value. No operation of the node assigns \<open>hardware_ready\<close>: it is false in
  every state reached from the initial one.
\<close>

theorem session_start_authorized:
  "header = Some (lab_pi_id (lab_state w)) \<Longrightarrow>
     (let r = lab_pi_session_start cfg header session_key email now gpio_ok w
      in fst r = ReplySuccess \<and>
         session_active (lab_state (snd r)) \<and>
         current_session_key (lab_state (snd r)) = session_key \<and>
         user_email (lab_state (snd r)) = email \<and>
         session_start_time (lab_state (snd r)) = Some now \<and>
         relay_state (lab_state (snd r)) =
           (if gpio_enabled cfg \<and> gpio_ok then True else relay_state (lab_state w)) \<and>
         hardware_ready (lab_state (snd r)) = hardware_ready (lab_state w)) \<and>
     \<not> hardware_ready (lab_state (app_side (run cfg pcfg evs (node_init ident t0))))"
proof -
  assume h: "header = Some (lab_pi_id (lab_state w))"
  have "\<not> hardware_ready (lab_state (app_side (run cfg pcfg evs (node_init ident t0))))"
    by (simp add: run_hardware_ready init_defs)
  with h show ?thesis
    by (simp add: lab_pi_session_start_def lab_state_power_on Let_def)
qed

theorem session_start_authorized_witness:
  "Some ''lab-001'' = Some (lab_pi_id (lab_state (world_init ''lab-001'' 0))) \<and>
   (let r = lab_pi_session_start \<lparr> lgpio = True, RELAY_PIN = Some 26 \<rparr> (Some ''lab-001'')
              (Some ''A'') (Some ''u@x'') 7 False (world_init ''lab-001'' 0)
    in fst r = ReplySuccess \<and> session_active (lab_state (snd r)) \<and>
       \<not> relay_state (lab_state (snd r)) \<and> \<not> hardware_ready (lab_state (snd r)))"
proof -
  have h: "Some ''lab-001'' = Some (lab_pi_id (lab_state (world_init ''lab-001'' 0)))"
    by (simp add: init_defs)
  have r: "\<not> relay_state (lab_state (world_init ''lab-001'' 0))"
    and hr: "\<not> hardware_ready (lab_state (world_init ''lab-001'' 0))"
    by (simp_all add: init_defs)
  show ?thesis
    using h r hr
      session_start_authorized [OF h, of "\<lparr> lgpio = True, RELAY_PIN = Some 26 \<rparr>"
        "Some ''A''" "Some ''u@x''" 7 False]
    by (simp add: Let_def)
qed

subsection \<open>Ending when no session is active\<close>

text \<open>
  C7 as stated: every end entry point answers an end without an active session with an
  error and makes no deenergize call. It does not hold for the pushed session end: on the
  initial state, with the GPIO guard open, \<^verbatim>\<open>lab_pi_session_end\<close> answers with success
  and writes level 0 to the relay pin.
\<close>

theorem pushed_end_without_session:
  "fst (lab_pi_session_end \<lparr> lgpio = True, RELAY_PIN = Some 26 \<rparr> (Some ''A'') True
          (world_init ''lab-001'' 0)) = ReplySuccess \<and>
   deenergize_calls (snd (lab_pi_session_end \<lparr> lgpio = True, RELAY_PIN = Some 26 \<rparr> (Some ''A'')
          True (world_init ''lab-001'' 0))) = 1"
  by (simp add: deenergize_calls_def app_defs init_defs)

text \<open>
  C7, amended: when no session is active, the local end endpoint
  (\<^verbatim>\<open>api_end_session\<close>) answers with the error 400 and changes nothing: no field, no
  deenergize call, no notification. The pushed session end (\<^verbatim>\<open>lab_pi_session_end\<close>)
  answers with success; it leaves \<open>session_active\<close> false and the session key, start
  time and e-mail address cleared, sends no notification, and makes one deenergize call
  when the GPIO guard is open (none otherwise).
\<close>

theorem end_without_session:
  "\<not> session_active (lab_state w) \<Longrightarrow>
     api_end_session cfg answer gpio_ok w = (ReplyError 400, w) \<and>
     (let r = lab_pi_session_end cfg session_key gpio_ok w
      in fst r = ReplySuccess \<and>
         \<not> session_active (lab_state (snd r)) \<and>
         current_session_key (lab_state (snd r)) = None \<and>
         session_start_time (lab_state (snd r)) = None \<and>
         user_email (lab_state (snd r)) = None \<and>
         notifications (snd r) = notifications w \<and>
         deenergize_calls (snd r) = deenergize_calls w + (if gpio_enabled cfg then 1 else 0))"
  by (simp add: api_end_session_def lab_pi_session_end_def lab_state_power_off
        notifications_power_off deenergize_calls_power_off count_simps Let_def)

theorem end_without_session_witness:
  "\<not> session_active (lab_state (world_init ''lab-001'' 0)) \<and>
   api_end_session \<lparr> lgpio = True, RELAY_PIN = Some 26 \<rparr> (Some 200) True (world_init ''lab-001'' 0)
     = (ReplyError 400, world_init ''lab-001'' 0) \<and>
   fst (lab_pi_session_end \<lparr> lgpio = False, RELAY_PIN = None \<rparr> None True
          (world_init ''lab-001'' 0)) = ReplySuccess \<and>
   deenergize_calls (snd (lab_pi_session_end \<lparr> lgpio = False, RELAY_PIN = None \<rparr> None True
          (world_init ''lab-001'' 0))) = 0"
proof -
  have h: "\<not> session_active (lab_state (world_init ''lab-001'' 0))"
    by (simp add: init_defs)
  have d: "deenergize_calls (world_init ''lab-001'' 0) = 0"
    by (simp add: deenergize_calls_def init_defs)
  have g: "\<not> gpio_enabled \<lparr> lgpio = False, RELAY_PIN = None \<rparr>"
    by (simp add: gpio_enabled_def)
  show ?thesis
    using h d g
      end_without_session [OF h, of "\<lparr> lgpio = True, RELAY_PIN = Some 26 \<rparr>" "Some 200" True]
      end_without_session [OF h, of "\<lparr> lgpio = False, RELAY_PIN = None \<rparr>" None True None]
    by (auto simp: Let_def)
qed

subsection \<open>The timeout monitor\<close>

text \<open>
  C8 as stated: an active session older than the maximal duration is ended by the next
  pass of the monitor. It does not hold when the session has no key: a session pushed
  without \<^verbatim>\<open>session_key\<close> at time 0 is still active, with the relay flag set, after a
  pass of the monitor 3601 seconds later.
\<close>

theorem monitor_keeps_keyless_session:
  "session_active (lab_state (app_side
     (run \<lparr> lgpio = True, RELAY_PIN = Some 26 \<rparr> \<lparr> poller_lgpio = True, gpio_handle = Some 1 \<rparr>
          [EvSessionStart (Some ''lab-001'') None (Some ''u@x'') 0 True,
           EvMonitorTick 3601000000 (Some 200) True]
          (node_init ''lab-001'' 0)))) \<and>
   relay_state (lab_state (app_side
     (run \<lparr> lgpio = True, RELAY_PIN = Some 26 \<rparr> \<lparr> poller_lgpio = True, gpio_handle = Some 1 \<rparr>
          [EvSessionStart (Some ''lab-001'') None (Some ''u@x'') 0 True,
           EvMonitorTick 3601000000 (Some 200) True]
          (node_init ''lab-001'' 0))))"
  by (simp add: step_def app_defs init_defs max_duration_def)

text \<open>
  C8, amended: if \<open>session_active\<close> is true, the session key is set (not \<^verbatim>\<open>None\<close>, not
  empty) and more than \<open>max_duration\<close> (3600 seconds) have passed since
  \<open>session_start_time\<close>, then a pass of the monitor does what \<^verbatim>\<open>end_session()\<close> does:
  it posts one notification to the Master (whose result is not used), \<open>session_active\<close>
  becomes false, the key, start time and e-mail address are cleared, and \<open>relay_state\<close>
  becomes false if the GPIO guard is open and the write returns (it keeps its value
  otherwise).
\<close>

theorem monitor_ends_expired_session:
  "session_active (lab_state w) \<Longrightarrow> session_start_time (lab_state w) = Some t \<Longrightarrow>
   now - t > max_duration * 1000000 \<Longrightarrow> truthy (current_session_key (lab_state w)) \<Longrightarrow>
     (let w' = session_monitor_tick cfg now answer gpio_ok w
      in w' = end_session cfg answer gpio_ok w \<and>
         \<not> session_active (lab_state w') \<and>
         current_session_key (lab_state w') = None \<and>
         session_start_time (lab_state w') = None \<and>
         user_email (lab_state w') = None \<and>
         notifications w' = notifications w + 1 \<and>
         relay_state (lab_state w') =
           (if gpio_enabled cfg \<and> gpio_ok then False else relay_state (lab_state w)))"
  by (simp add: session_monitor_tick_def end_session_def master_end_session_def
        lab_state_power_off lab_state_emit notifications_power_off count_simps Let_def
      split: option.splits)

theorem monitor_ends_expired_session_witness:
  "(let w = snd (lab_pi_session_start \<lparr> lgpio = True, RELAY_PIN = Some 26 \<rparr> (Some ''lab-001'')
                   (Some ''A'') (Some ''u@x'') 0 True (world_init ''lab-001'' 0));
        w' = session_monitor_tick \<lparr> lgpio = True, RELAY_PIN = Some 26 \<rparr> 3600000001 None True w
    in session_active (lab_state w) \<and> session_start_time (lab_state w) = Some 0 \<and>
       3600000001 - 0 > max_duration * 1000000 \<and> truthy (current_session_key (lab_state w)) \<and>
       relay_state (lab_state w) \<and>
       \<not> session_active (lab_state w') \<and> \<not> relay_state (lab_state w') \<and>
       current_session_key (lab_state w') = None)"
proof -
  let ?cfg = "\<lparr> lgpio = True, RELAY_PIN = Some 26 \<rparr>"
  let ?w = "snd (lab_pi_session_start ?cfg (Some ''lab-001'') (Some ''A'') (Some ''u@x'') 0 True
                   (world_init ''lab-001'' 0))"
  have a: "session_active (lab_state ?w)"
    and s: "session_start_time (lab_state ?w) = Some 0"
    and k: "truthy (current_session_key (lab_state ?w))"
    and r: "relay_state (lab_state ?w)"
    by (simp_all add: lab_pi_session_start_def lab_state_power_on gpio_enabled_def init_defs)
  have d: "3600000001 - 0 > max_duration * 1000000"
    by (simp add: max_duration_def)
  have g: "gpio_enabled ?cfg"
    by (simp add: gpio_enabled_def)
  show ?thesis
    using a s k r d g monitor_ends_expired_session [OF a s d k, of ?cfg None True]
    by (auto simp: Let_def)
qed

subsection \<open>Heartbeat failures and re-registration\<close>

lemmas answer_splits =
  option.splits if_splits reg_answer.splits reg_body.splits hb_answer.splits hb_body.splits
  session_data.splits prod.splits

lemma heartbeat_failed_effects:
  "\<not> fst (heartbeat cfg hb now gpio_ok w) \<Longrightarrow>
     effects (snd (heartbeat cfg hb now gpio_ok w)) = effects w @ [MasterHeartbeat]"
  by (auto simp: heartbeat_def heartbeat_failed_def handle_new_session_def emit_def Let_def
           split: answer_splits)

lemma heartbeat_success_resets:
  "fst (heartbeat cfg hb now gpio_ok w) \<Longrightarrow>
     heartbeat_failures (lab_state (snd (heartbeat cfg hb now gpio_ok w))) = 0 \<and> parsed_200 hb"
  by (auto simp: heartbeat_def heartbeat_failed_def handle_new_session_def emit_def Let_def
                 lab_state_power_on
           split: answer_splits)

lemma heartbeat_registered:
  "registered (lab_state (snd (heartbeat cfg hb now gpio_ok w))) = registered (lab_state w)"
  by (auto simp: heartbeat_def heartbeat_failed_def handle_new_session_def emit_def Let_def
                 lab_state_power_on
           split: answer_splits)

lemma heartbeat_register_calls:
  "register_calls (snd (heartbeat cfg hb now gpio_ok w)) = register_calls w"
  by (auto simp: register_calls_def heartbeat_def heartbeat_failed_def handle_new_session_def
                 power_on_hardware_def emit_def Let_def
           split: answer_splits)

lemma register_effects: "effects (snd (register rg now w)) = effects w @ [MasterRegister]"
  by (auto simp: register_def emit_def Let_def split: answer_splits)

lemma register_failures:
  "heartbeat_failures (lab_state (snd (register rg now w))) = heartbeat_failures (lab_state w)"
  by (auto simp: register_def emit_def Let_def split: answer_splits)

lemma register_registered:
  "registered (lab_state (snd (register rg now w))) =
     (fst (register rg now w) \<or> registered (lab_state w))"
  by (auto simp: register_def emit_def Let_def split: answer_splits)

lemma register_fst: "fst (register rg now (w\<lparr> lab_state := s \<rparr>)) = fst (register rg now w)"
  by (auto simp: register_def emit_def Let_def split: answer_splits)

lemma app_step_keeps_registered:
  "\<not> is_heartbeat_pass e \<Longrightarrow> registered (lab_state w) \<Longrightarrow>
     registered (lab_state (app_step cfg e w))"
  by (cases e) (auto simp: app_defs Let_def split: answer_splits)

lemma counter_reaches_five:
  assumes lt: "heartbeat_failures (lab_state w) < 5"
    and ge: "5 \<le> heartbeat_failures (lab_state (heartbeat_iteration cfg hb rg now gpio_ok w))"
  shows "registered (lab_state w) \<and> \<not> fst (heartbeat cfg hb now gpio_ok w) \<and>
         5 \<le> heartbeat_failures (lab_state (snd (heartbeat cfg hb now gpio_ok w)))"
proof -
  obtain b w1 where hbw: "heartbeat cfg hb now gpio_ok w = (b, w1)"
    by (cases "heartbeat cfg hb now gpio_ok w")
  have r: "registered (lab_state w)"
  proof (rule ccontr)
    assume "\<not> registered (lab_state w)"
    then have "heartbeat_iteration cfg hb rg now gpio_ok w = snd (register rg now w)"
      by (simp add: heartbeat_iteration_def)
    with ge lt show False by (simp add: register_failures)
  qed
  have nb: "\<not> b"
  proof
    assume b
    then have "heartbeat_failures (lab_state w1) = 0"
      using heartbeat_success_resets [of cfg hb now gpio_ok w] hbw by simp
    moreover from \<open>b\<close> r hbw have "heartbeat_iteration cfg hb rg now gpio_ok w = w1"
      by (simp add: heartbeat_iteration_def)
    ultimately show False using ge by simp
  qed
  have "5 \<le> heartbeat_failures (lab_state w1)"
  proof (rule ccontr)
    assume n: "\<not> 5 \<le> heartbeat_failures (lab_state w1)"
    with nb r hbw have "heartbeat_iteration cfg hb rg now gpio_ok w = w1"
      by (simp add: heartbeat_iteration_def)
    with ge n show False by simp
  qed
  with r nb hbw show ?thesis by simp
qed

text \<open>
  C5: in a pass of the heartbeat loop of a registered node whose heartbeat fails and
  leaves the failure counter at 5 or more, the loop sets \<open>registered\<close> to false and calls
  \<^verbatim>\<open>register()\<close> in the same pass: the pass makes the heartbeat request and then the
  registration request, and \<open>registered\<close> is afterwards what the registration returned.
  The counter gets from below 5 to 5 only in such a pass. A registered node loses
  \<open>registered\<close> in no other operation, and a pass of a registered node makes a
  registration request exactly in that case. After a heartbeat that returns true the
  failure counter is 0.
\<close>

theorem reregistration_after_five_failures:
  "registered (lab_state w) \<Longrightarrow> \<not> fst (heartbeat cfg hb now gpio_ok w) \<Longrightarrow>
   heartbeat_failures (lab_state (snd (heartbeat cfg hb now gpio_ok w))) \<ge> 5 \<Longrightarrow>
     (let w1 = snd (heartbeat cfg hb now gpio_ok w);
          w' = heartbeat_iteration cfg hb rg now gpio_ok w
      in w' = snd (register rg now (w1\<lparr> lab_state := (lab_state w1)\<lparr> registered := False \<rparr> \<rparr>)) \<and>
         effects w' = effects w @ [MasterHeartbeat, MasterRegister] \<and>
         registered (lab_state w') = fst (register rg now w1) \<and>
         heartbeat_failures (lab_state w') = heartbeat_failures (lab_state w1)) \<and>
     (heartbeat_failures (lab_state v) < 5 \<and>
      5 \<le> heartbeat_failures (lab_state (heartbeat_iteration cfg hb' rg' now' ok' v)) \<longrightarrow>
        registered (lab_state v) \<and> \<not> fst (heartbeat cfg hb' now' ok' v) \<and>
        5 \<le> heartbeat_failures (lab_state (snd (heartbeat cfg hb' now' ok' v)))) \<and>
     (registered (lab_state v) \<and> \<not> is_heartbeat_pass e \<longrightarrow>
        registered (lab_state (app_step cfg e v))) \<and>
     (registered (lab_state v) \<longrightarrow>
        register_calls (heartbeat_iteration cfg hb' rg' now' ok' v) =
          register_calls v +
            (if \<not> fst (heartbeat cfg hb' now' ok' v) \<and>
                heartbeat_failures (lab_state (snd (heartbeat cfg hb' now' ok' v))) \<ge> 5
             then 1 else 0)) \<and>
     (fst (heartbeat cfg hb' now' ok' v) \<longrightarrow>
        heartbeat_failures (lab_state (snd (heartbeat cfg hb' now' ok' v))) = 0)"
proof -
  assume r: "registered (lab_state w)"
    and f: "\<not> fst (heartbeat cfg hb now gpio_ok w)"
    and n: "heartbeat_failures (lab_state (snd (heartbeat cfg hb now gpio_ok w))) \<ge> 5"
  let ?w1 = "snd (heartbeat cfg hb now gpio_ok w)"
  let ?w0 = "?w1\<lparr> lab_state := (lab_state ?w1)\<lparr> registered := False \<rparr> \<rparr>"
  have it: "heartbeat_iteration cfg hb rg now gpio_ok w = snd (register rg now ?w0)"
    using r f n by (auto simp: heartbeat_iteration_def split: prod.splits bool.splits)
  have eff: "effects (snd (register rg now ?w0)) = effects w @ [MasterHeartbeat, MasterRegister]"
    using f by (simp add: register_effects heartbeat_failed_effects)
  have reg: "registered (lab_state (snd (register rg now ?w0))) = fst (register rg now ?w1)"
    by (simp add: register_registered register_fst)
  have cnt: "heartbeat_failures (lab_state (snd (register rg now ?w0))) =
               heartbeat_failures (lab_state ?w1)"
    by (simp add: register_failures)
  have keep: "registered (lab_state v) \<and> \<not> is_heartbeat_pass e \<longrightarrow>
                registered (lab_state (app_step cfg e v))"
    by (simp add: app_step_keeps_registered)
  have calls: "registered (lab_state v) \<longrightarrow>
        register_calls (heartbeat_iteration cfg hb' rg' now' ok' v) =
          register_calls v +
            (if \<not> fst (heartbeat cfg hb' now' ok' v) \<and>
                heartbeat_failures (lab_state (snd (heartbeat cfg hb' now' ok' v))) \<ge> 5
             then 1 else 0)"
  proof
    assume rv: "registered (lab_state v)"
    obtain b v1 where hbv: "heartbeat cfg hb' now' ok' v = (b, v1)"
      by (cases "heartbeat cfg hb' now' ok' v")
    have c1: "register_calls v1 = register_calls v"
      using heartbeat_register_calls [of cfg hb' now' ok' v] hbv by simp
    have c2: "register_calls (snd (register rg' now' u)) = register_calls u + 1" for u
      by (simp add: register_calls_def register_effects)
    have c3: "register_calls (u\<lparr> lab_state := s \<rparr>) = register_calls u" for u s
      by (simp add: register_calls_def)
    show "register_calls (heartbeat_iteration cfg hb' rg' now' ok' v) =
          register_calls v +
            (if \<not> fst (heartbeat cfg hb' now' ok' v) \<and>
                heartbeat_failures (lab_state (snd (heartbeat cfg hb' now' ok' v))) \<ge> 5
             then 1 else 0)"
      using rv hbv c1 by (cases b) (simp_all add: heartbeat_iteration_def c2 c3)
  qed
  have reset: "fst (heartbeat cfg hb' now' ok' v) \<longrightarrow>
        heartbeat_failures (lab_state (snd (heartbeat cfg hb' now' ok' v))) = 0"
    by (simp add: heartbeat_success_resets)
  have reach: "heartbeat_failures (lab_state v) < 5 \<and>
      5 \<le> heartbeat_failures (lab_state (heartbeat_iteration cfg hb' rg' now' ok' v)) \<longrightarrow>
        registered (lab_state v) \<and> \<not> fst (heartbeat cfg hb' now' ok' v) \<and>
        5 \<le> heartbeat_failures (lab_state (snd (heartbeat cfg hb' now' ok' v)))"
    using counter_reaches_five [of v cfg hb' rg' now' ok'] by blast
  show ?thesis
    using it eff reg cnt reach keep calls reset by (simp add: Let_def)
qed

theorem reregistration_after_five_failures_witness:
  "(let cfg = \<lparr> lgpio = True, RELAY_PIN = Some 26 \<rparr>;
        w = app_side (run cfg \<lparr> poller_lgpio = True, gpio_handle = Some 1 \<rparr>
              [EvRegister (RegResponse 200 (RegBodyDict (Some 1))) 0,
               EvHeartbeatLoop HbRaised RegRaised 1 True,
               EvHeartbeatLoop (HbResponse 503 BodyUnparsable) RegRaised 2 True,
               EvHeartbeatLoop HbRaised RegRaised 3 True,
               EvHeartbeatLoop HbRaised RegRaised 4 True]
              (node_init ''lab-001'' 0));
        w' = heartbeat_iteration cfg HbRaised (RegResponse 200 (RegBodyDict (Some 2))) 5 True w
    in registered (lab_state w) \<and>
       \<not> fst (heartbeat cfg HbRaised 5 True w) \<and>
       heartbeat_failures (lab_state (snd (heartbeat cfg HbRaised 5 True w))) \<ge> 5 \<and>
       heartbeat_failures (lab_state w) < 5 \<and>
       5 \<le> heartbeat_failures (lab_state w') \<and>
       effects w' = effects w @ [MasterHeartbeat, MasterRegister] \<and>
       registered (lab_state w') \<and>
       registered (lab_state (app_step cfg (EvRelayOn True) w)) \<and>
       register_calls (heartbeat_iteration cfg (HbResponse 200 (BodyDict False None)) RegRaised
                         6 True w) = register_calls w \<and>
       fst (heartbeat cfg (HbResponse 200 (BodyDict False None)) 6 True w) \<and>
       heartbeat_failures (lab_state (snd (heartbeat cfg (HbResponse 200 (BodyDict False None))
                                            6 True w))) = 0)"
proof -
  let ?cfg = "\<lparr> lgpio = True, RELAY_PIN = Some 26 \<rparr>"
  let ?w = "app_side (run ?cfg \<lparr> poller_lgpio = True, gpio_handle = Some 1 \<rparr>
              [EvRegister (RegResponse 200 (RegBodyDict (Some 1))) 0,
               EvHeartbeatLoop HbRaised RegRaised 1 True,
               EvHeartbeatLoop (HbResponse 503 BodyUnparsable) RegRaised 2 True,
               EvHeartbeatLoop HbRaised RegRaised 3 True,
               EvHeartbeatLoop HbRaised RegRaised 4 True]
              (node_init ''lab-001'' 0))"
  let ?ok = "RegResponse 200 (RegBodyDict (Some 2))"
  let ?good = "HbResponse 200 (BodyDict False None)"
  have r: "registered (lab_state ?w)"
    by (simp add: step_def app_defs init_defs)
  have f: "\<not> fst (heartbeat ?cfg HbRaised 5 True ?w)"
    by (simp add: heartbeat_def heartbeat_failed_def Let_def)
  have n: "heartbeat_failures (lab_state (snd (heartbeat ?cfg HbRaised 5 True ?w))) \<ge> 5"
    by (simp add: step_def app_defs init_defs)
  have lt: "heartbeat_failures (lab_state ?w) < 5"
    by (simp add: step_def app_defs init_defs)
  have ok: "fst (register ?ok 5 u)" for u
    by (simp add: register_def Let_def)
  have s: "fst (heartbeat ?cfg ?good 6 True ?w)"
    by (simp add: heartbeat_def Let_def)
  have e: "\<not> is_heartbeat_pass (EvRelayOn True)"
    by simp
  note T = reregistration_after_five_failures [OF r f n, of ?ok ?w ?good RegRaised 6 True
             "EvRelayOn True"]
  from T have cnt: "heartbeat_failures (lab_state (heartbeat_iteration ?cfg HbRaised ?ok 5 True ?w)) =
                      heartbeat_failures (lab_state (snd (heartbeat ?cfg HbRaised 5 True ?w)))"
    unfolding Let_def by blast
  have ge: "5 \<le> heartbeat_failures (lab_state (heartbeat_iteration ?cfg HbRaised ?ok 5 True ?w))"
    using n by (simp only: cnt)
  from T r have "register_calls (heartbeat_iteration ?cfg ?good RegRaised 6 True ?w) =
      register_calls ?w +
        (if \<not> fst (heartbeat ?cfg ?good 6 True ?w) \<and>
            heartbeat_failures (lab_state (snd (heartbeat ?cfg ?good 6 True ?w))) \<ge> 5
         then 1 else 0)"
    by blast
  with s have c: "register_calls (heartbeat_iteration ?cfg ?good RegRaised 6 True ?w) =
                    register_calls ?w"
    by (simp only: not_True_eq_False simp_thms if_False add_0_right)
  note T' = reregistration_after_five_failures [OF r f n, of ?ok ?w HbRaised ?ok 5 True
              "EvRelayOn True"]
  show ?thesis
    using r f n lt ge ok s e c T T'
    unfolding Let_def by blast
qed

subsection \<open>I3: the failure counter\<close>

lemma app_step_failures_unchanged:
  "\<not> is_heartbeat_pass e \<Longrightarrow>
     heartbeat_failures (lab_state (app_step cfg e w)) = heartbeat_failures (lab_state w)"
  by (cases e) (auto simp: app_defs Let_def split: answer_splits)

lemma app_step_failures_mono:
  "\<not> carries_parsed_200 e \<Longrightarrow>
     heartbeat_failures (lab_state w) \<le> heartbeat_failures (lab_state (app_step cfg e w))"
  by (cases e) (auto simp: app_defs Let_def split: answer_splits)

lemma heartbeat_unparsed:
  "\<not> parsed_200 hb \<Longrightarrow>
     \<not> fst (heartbeat cfg hb now gpio_ok w) \<and>
     heartbeat_failures (lab_state (snd (heartbeat cfg hb now gpio_ok w))) =
       heartbeat_failures (lab_state w) + 1"
  by (cases hb)
     (auto simp: heartbeat_def heartbeat_failed_def emit_def Let_def split: hb_body.splits)

text \<open>
  C10 as stated: the failure counter never decreases in an operation other than a
  successful heartbeat, a failed heartbeat among them. It does not hold: after four failed
  heartbeats the counter is 4; the next heartbeat gets a 200 response whose body has
  \<^verbatim>\<open>new_session\<close> set and no \<^verbatim>\<open>session\<close>: the counter is set to 0, the lookup
  raises, the \<^verbatim>\<open>except\<close> branch adds 1, and \<^verbatim>\<open>heartbeat\<close> returns false with the
  counter at 1.
\<close>

theorem failed_heartbeat_lowers_counter:
  "heartbeat_failures (lab_state
     (app_side (run \<lparr> lgpio = True, RELAY_PIN = Some 26 \<rparr>
             \<lparr> poller_lgpio = True, gpio_handle = Some 1 \<rparr>
             [EvRegister (RegResponse 200 (RegBodyDict (Some 1))) 0,
              EvHeartbeatLoop HbRaised RegRaised 1 True,
              EvHeartbeatLoop HbRaised RegRaised 2 True,
              EvHeartbeatLoop HbRaised RegRaised 3 True,
              EvHeartbeatLoop HbRaised RegRaised 4 True]
             (node_init ''lab-001'' 0)))) = 4 \<and>
   fst (heartbeat \<lparr> lgpio = True, RELAY_PIN = Some 26 \<rparr> (HbResponse 200 (BodyDict True None)) 5 True
     (app_side (run \<lparr> lgpio = True, RELAY_PIN = Some 26 \<rparr>
             \<lparr> poller_lgpio = True, gpio_handle = Some 1 \<rparr>
             [EvRegister (RegResponse 200 (RegBodyDict (Some 1))) 0,
              EvHeartbeatLoop HbRaised RegRaised 1 True,
              EvHeartbeatLoop HbRaised RegRaised 2 True,
              EvHeartbeatLoop HbRaised RegRaised 3 True,
              EvHeartbeatLoop HbRaised RegRaised 4 True]
             (node_init ''lab-001'' 0)))) = False \<and>
   heartbeat_failures (lab_state (snd
     (heartbeat \<lparr> lgpio = True, RELAY_PIN = Some 26 \<rparr> (HbResponse 200 (BodyDict True None)) 5 True
     (app_side (run \<lparr> lgpio = True, RELAY_PIN = Some 26 \<rparr>
             \<lparr> poller_lgpio = True, gpio_handle = Some 1 \<rparr>
             [EvRegister (RegResponse 200 (RegBodyDict (Some 1))) 0,
              EvHeartbeatLoop HbRaised RegRaised 1 True,
              EvHeartbeatLoop HbRaised RegRaised 2 True,
              EvHeartbeatLoop HbRaised RegRaised 3 True,
              EvHeartbeatLoop HbRaised RegRaised 4 True]
             (node_init ''lab-001'' 0)))))) = 1"
  by (simp add: step_def app_defs init_defs Let_def)

text \<open>
  C10, amended: the failure counter is 0 after every heartbeat that returns true, and a
  heartbeat returns true only on a response with status 200 whose body parses. In every
  operation that does not receive such a response the counter does not decrease:
  registration, re-registration, session start, session end, the timeout monitor, the
  relay requests and the polls leave it unchanged, and a heartbeat whose request raised,
  whose status is not 200 or whose body does not parse returns false and adds 1.
\<close>

theorem failures_counter_monotone:
  "\<not> carries_parsed_200 e \<Longrightarrow>
     heartbeat_failures (lab_state w) \<le> heartbeat_failures (lab_state (app_step cfg e w)) \<and>
     (\<not> is_heartbeat_pass e \<longrightarrow>
        heartbeat_failures (lab_state (app_step cfg e w)) = heartbeat_failures (lab_state w)) \<and>
     heartbeat_failures (lab_state (snd (register rg now w))) = heartbeat_failures (lab_state w) \<and>
     (\<not> parsed_200 hb \<longrightarrow>
        \<not> fst (heartbeat cfg hb now gpio_ok w) \<and>
        heartbeat_failures (lab_state (snd (heartbeat cfg hb now gpio_ok w))) =
          heartbeat_failures (lab_state w) + 1) \<and>
     (fst (heartbeat cfg hb' now gpio_ok w) \<longrightarrow>
        parsed_200 hb' \<and>
        heartbeat_failures (lab_state (snd (heartbeat cfg hb' now gpio_ok w))) = 0)"
  by (simp add: app_step_failures_mono app_step_failures_unchanged register_failures
        heartbeat_unparsed heartbeat_success_resets)

theorem failures_counter_monotone_witness:
  "(let cfg = \<lparr> lgpio = True, RELAY_PIN = Some 26 \<rparr>;
        w = snd (register (RegResponse 200 (RegBodyDict (Some 1))) 0 (world_init ''lab-001'' 0));
        e = EvHeartbeatLoop (HbResponse 500 BodyUnparsable) RegRaised 1 True
    in \<not> carries_parsed_200 e \<and> \<not> is_heartbeat_pass (EvSessionEnd None True) \<and>
       \<not> parsed_200 HbRaised \<and>
       heartbeat_failures (lab_state w) = 0 \<and>
       heartbeat_failures (lab_state (app_step cfg e w)) = 1 \<and>
       heartbeat_failures (lab_state (app_step cfg (EvSessionEnd None True) w)) = 0 \<and>
       heartbeat_failures (lab_state (snd (heartbeat cfg HbRaised 1 True w))) = 1 \<and>
       fst (heartbeat cfg (HbResponse 200 (BodyDict False None)) 1 True w) \<and>
       heartbeat_failures (lab_state (snd (heartbeat cfg (HbResponse 200 (BodyDict False None))
                                            1 True w))) = 0)"
proof -
  let ?cfg = "\<lparr> lgpio = True, RELAY_PIN = Some 26 \<rparr>"
  let ?w = "snd (register (RegResponse 200 (RegBodyDict (Some 1))) 0 (world_init ''lab-001'' 0))"
  let ?e = "EvHeartbeatLoop (HbResponse 500 BodyUnparsable) RegRaised 1 True"
  have c: "\<not> carries_parsed_200 ?e"
    and p: "\<not> is_heartbeat_pass (EvSessionEnd None True)"
    and u: "\<not> parsed_200 HbRaised"
    by simp_all
  have z: "heartbeat_failures (lab_state ?w) = 0"
    by (simp add: register_failures init_defs)
  have s: "fst (heartbeat ?cfg (HbResponse 200 (BodyDict False None)) 1 True ?w)"
    by (simp add: heartbeat_def Let_def)
  have one: "heartbeat_failures (lab_state (app_step ?cfg ?e ?w)) = 1"
    by (simp add: app_defs init_defs Let_def)
  have "\<not> carries_parsed_200 (EvSessionEnd None True)"
    by simp
  then show ?thesis
    using c p u z s one
      failures_counter_monotone [OF c, of ?w ?cfg]
      failures_counter_monotone [of "EvSessionEnd None True" ?w ?cfg RegRaised 1 HbRaised True
        "HbResponse 200 (BodyDict False None)"]
    unfolding Let_def by (simp del: app_step.simps)
qed

subsection \<open>Push surface and poll fallback\<close>

lemmas poller_defs =
  poll_def start_hardware_def stop_hardware_def poller_relay_on_def poller_relay_off_def
  clear_poller_session_def poller_emit_def

lemma control_step_agree:
  "gpio_enabled cfg \<Longrightarrow> paths_agree w pw \<Longrightarrow>
     paths_agree (push_control cfg now c w) (poll_control pcfg now' c pw)"
  by (cases c)
     (auto simp: paths_agree_def push_view_def poll_view_def I1_def lab_pi_session_start_def
                 lab_pi_session_end_def lab_state_power_on lab_state_power_off poller_defs Let_def
           split: option.splits if_splits prod.splits)

lemma control_run_agree:
  "gpio_enabled cfg \<Longrightarrow> paths_agree w pw \<Longrightarrow>
     paths_agree (push_run cfg now cs w) (poll_run pcfg now' cs pw)"
  by (induction cs arbitrary: w pw) (simp_all add: control_step_agree)

lemma init_agree: "paths_agree (world_init ident t0) poller_world_init"
  by (simp add: paths_agree_def push_view_def poll_view_def I1_def init_defs)

text \<open>
  C3 as stated: both paths call the same start and end primitives and drive the relay
  output identically. It does not hold: the poller has functions and a state of its own.
  For two session starts in a row the application writes the pin twice, with level 1, and
  the poller writes it once, with level 0.
\<close>

theorem paths_write_differently:
  "map gpio_level (effects (push_run \<lparr> lgpio = True, RELAY_PIN = Some 26 \<rparr> 0
                              [Start ''A'', Start ''B''] (world_init ''lab-001'' 0))) =
     [Some 1, Some 1] \<and>
   map gpio_level (poller_effects (poll_run \<lparr> poller_lgpio = True, gpio_handle = Some 1 \<rparr> 0
                              [Start ''A'', Start ''B''] poller_world_init)) =
     [Some 0]"
  by (simp add: app_defs poller_defs init_defs poller_RELAY_PIN_def)

text \<open>
  C3, amended: the push surface (the handlers of the application, on \<^verbatim>\<open>LabPiState\<close>)
  and the poll fallback (\<^verbatim>\<open>SessionPoller.poll\<close>, on its own state) are separate
  implementations. For every sequence of start and end events applied to the initial
  states, with the application's GPIO guard open and every GPIO write returning, both end
  with the same remembered session key and the same relay flag (\<open>relay_state\<close>,
  \<open>hardware_running\<close>); on the push path \<open>relay_state\<close> implies \<open>session_active\<close>, on the
  poll path \<open>hardware_running\<close> implies that a session key is remembered. Which writes
  reach the pin, and with which level, is not part of the statement.
\<close>

theorem control_paths_agree:
  "gpio_enabled cfg \<Longrightarrow>
     push_view (push_run cfg now cs (world_init ident t0)) =
       poll_view (poll_run pcfg now' cs poller_world_init) \<and>
     I1 (push_run cfg now cs (world_init ident t0)) \<and>
     (hardware_running (poller (poll_run pcfg now' cs poller_world_init)) \<longrightarrow>
        poller_current_session_key (poller (poll_run pcfg now' cs poller_world_init)) \<noteq> None)"
proof -
  assume g: "gpio_enabled cfg"
  have "paths_agree (push_run cfg now cs (world_init ident t0))
                    (poll_run pcfg now' cs poller_world_init)"
    using g init_agree by (rule control_run_agree)
  then have v: "push_view (push_run cfg now cs (world_init ident t0)) =
                  poll_view (poll_run pcfg now' cs poller_world_init)"
    and r: "relay_state (lab_state (push_run cfg now cs (world_init ident t0))) =
              (current_session_key (lab_state (push_run cfg now cs (world_init ident t0))) \<noteq> None)"
    and i: "I1 (push_run cfg now cs (world_init ident t0))"
    by (simp_all add: paths_agree_def)
  from v r have "hardware_running (poller (poll_run pcfg now' cs poller_world_init)) =
      (poller_current_session_key (poller (poll_run pcfg now' cs poller_world_init)) \<noteq> None)"
    by (auto simp: push_view_def poll_view_def)
  with v i show ?thesis by simp
qed

theorem control_paths_agree_witness:
  "gpio_enabled \<lparr> lgpio = True, RELAY_PIN = Some 26 \<rparr> \<and>
   push_view (push_run \<lparr> lgpio = True, RELAY_PIN = Some 26 \<rparr> 5
                [Start ''A'', Start ''B'', End, Start ''C''] (world_init ''lab-001'' 0)) =
     (Some ''C'', True) \<and>
   poll_view (poll_run \<lparr> poller_lgpio = True, gpio_handle = Some 1 \<rparr> 6
                [Start ''A'', Start ''B'', End, Start ''C''] poller_world_init) =
     (Some ''C'', True) \<and>
   session_active (lab_state (push_run \<lparr> lgpio = True, RELAY_PIN = Some 26 \<rparr> 5
                [Start ''A'', Start ''B'', End, Start ''C''] (world_init ''lab-001'' 0)))"
proof -
  let ?cfg = "\<lparr> lgpio = True, RELAY_PIN = Some 26 \<rparr>"
  let ?pcfg = "\<lparr> poller_lgpio = True, gpio_handle = Some 1 \<rparr>"
  let ?cs = "[Start ''A'', Start ''B'', End, Start ''C'']"
  have g: "gpio_enabled ?cfg"
    by (simp add: gpio_enabled_def)
  have v: "poll_view (poll_run ?pcfg 6 ?cs poller_world_init) = (Some ''C'', True)"
    by (simp add: poll_view_def poller_defs init_defs)
  show ?thesis
    using g v control_paths_agree [OF g, of 5 ?cs "''lab-001''" 0 ?pcfg 6]
    by (auto simp: I1_def push_view_def simp del: push_run.simps poll_run.simps)
qed

subsection \<open>The audio queue under backpressure\<close>

lemma audio_run_append: "audio_run (xs @ ys) a = audio_run ys (audio_run xs a)"
  by (induction xs arbitrary: a) simp_all

lemma capture_frames:
  "audio_run (map (\<lambda>f. Capture (Frame f)) fs) a =
     a\<lparr> audio_queue := audio_queue a @ take (maxsize - length (audio_queue a)) fs \<rparr>"
proof (induction fs arbitrary: a)
  case Nil
  then show ?case by simp
next
  case (Cons f fs)
  show ?case
  proof (cases "length (audio_queue a) < maxsize")
    case True
    then have "maxsize - length (audio_queue a) = Suc (maxsize - Suc (length (audio_queue a)))"
      by simp
    with True show ?thesis
      by (simp add: Cons.IH capture_step_def queue_put_def)
  next
    case False
    then show ?thesis
      by (simp add: Cons.IH capture_step_def queue_put_def)
  qed
qed

lemma sends:
  "audio_run (map Send outs) a =
     a\<lparr> audio_queue := drop (length outs) (audio_queue a),
        posts := posts a @ zip (audio_queue a) outs \<rparr>"
proof (induction outs arbitrary: a)
  case Nil
  then show ?case by simp
next
  case (Cons b outs)
  show ?case
  proof (cases "audio_queue a")
    case Nil
    then show ?thesis by (simp add: Cons.IH send_step_def)
  next
    case (Cons f rest)
    then show ?thesis by (simp add: Cons.IH send_step_def)
  qed
qed

lemma audio_step_bound:
  "length (audio_queue a) \<le> maxsize \<Longrightarrow> length (audio_queue (audio_step e a)) \<le> maxsize"
  by (cases e)
     (auto simp: capture_step_def queue_put_def send_step_def
           split: capture_input.splits list.splits)

lemma audio_run_bound:
  "length (audio_queue a) \<le> maxsize \<Longrightarrow> length (audio_queue (audio_run evs a)) \<le> maxsize"
  by (induction evs arbitrary: a) (simp_all add: audio_step_bound)

lemma audio_step_handled:
  "\<exists>zs. subseq zs (frame_of e) \<and> handled (audio_step e a) = handled a @ zs"
proof (cases e)
  case (Capture inp)
  show ?thesis
  proof (cases inp)
    case (Frame f)
    show ?thesis
    proof (cases "length (audio_queue a) < maxsize")
      case True
      with Capture Frame have "handled (audio_step e a) = handled a @ [f]"
        by (simp add: handled_def capture_step_def queue_put_def)
      with Capture Frame show ?thesis by auto
    next
      case False
      with Capture Frame have "handled (audio_step e a) = handled a @ []"
        by (simp add: handled_def capture_step_def queue_put_def)
      moreover have "subseq [] (frame_of e)" by simp
      ultimately show ?thesis by blast
    qed
  qed (use Capture in \<open>simp_all add: capture_step_def\<close>)
next
  case (Send post_ok)
  then have "handled (audio_step e a) = handled a @ []"
    by (simp add: handled_def send_step_def split: list.splits)
  moreover have "subseq [] (frame_of e)" by simp
  ultimately show ?thesis by blast
qed

lemma audio_run_handled:
  "\<exists>zs. subseq zs (frames_of evs) \<and> handled (audio_run evs a) = handled a @ zs"
proof (induction evs arbitrary: a)
  case Nil
  then show ?case by (simp add: frames_of_def)
next
  case (Cons e evs)
  obtain zs1 where s1: "subseq zs1 (frame_of e)"
    and h1: "handled (audio_step e a) = handled a @ zs1"
    using audio_step_handled by blast
  obtain zs2 where s2: "subseq zs2 (frames_of evs)"
    and h2: "handled (audio_run evs (audio_step e a)) = handled (audio_step e a) @ zs2"
    using Cons.IH by blast
  have "subseq (zs1 @ zs2) (frames_of (e # evs))"
    using s1 s2 by (simp add: frames_of_def list_emb_append_mono)
  moreover have "handled (audio_run (e # evs) a) = handled a @ zs1 @ zs2"
    using h1 h2 by simp
  ultimately show ?case by blast
qed

lemma handled_subseq:
  "subseq (handled (audio_run evs AudioCapture_init)) (frames_of evs)"
  using audio_run_handled [of evs AudioCapture_init]
  by (auto simp: handled_def AudioCapture_init_def)

text \<open>
  C9: from the empty queue, a capture loop that meets the frames \<open>fs\<close> while the sender
  takes nothing out leaves the first 10 of them in the queue, in order, and drops the
  rest; each pass returns (the \<^verbatim>\<open>put\<close> gives up after its timeout and the
  \<^verbatim>\<open>queue.Full\<close> is caught). When the sender then makes its passes, with the
  outcomes \<open>outs\<close> of its requests, it posts the buffered frames oldest first, one
  request per frame whether or not the request fails, and the queue keeps what is not yet
  sent. Under every interleaving of the two loops the queue holds at most 10 frames, and
  the frames posted so far, followed by the frames in the queue, are a subsequence of the
  frames captured: no frame is posted twice and none overtakes an older one.
\<close>

theorem audio_backpressure:
  "maxsize = 10 \<and>
   audio_run (map (\<lambda>f. Capture (Frame f)) fs) AudioCapture_init =
     \<lparr> audio_queue = take 10 fs, posts = [] \<rparr> \<and>
   audio_run (map (\<lambda>f. Capture (Frame f)) fs @ map Send outs) AudioCapture_init =
     \<lparr> audio_queue = drop (length outs) (take 10 fs), posts = zip (take 10 fs) outs \<rparr> \<and>
   length (audio_queue (audio_run evs AudioCapture_init)) \<le> 10 \<and>
   subseq (handled (audio_run evs AudioCapture_init)) (frames_of evs)"
proof -
  have m: "maxsize = 10" by (simp add: maxsize_def)
  have b: "length (audio_queue (audio_run evs AudioCapture_init)) \<le> maxsize"
    by (rule audio_run_bound) (simp add: AudioCapture_init_def)
  show ?thesis
    using b handled_subseq [of evs]
    by (simp add: audio_run_append capture_frames sends AudioCapture_init_def m)
qed

end
